theory Spec2Isabelle
  imports Complex_Main
begin

section \<open>GUST86: analytic orbits of the Uranian satellites (Gust86.cpp)\<close>

text \<open>
  The source computes in C \<open>double\<close>. A finite double is modelled as a real number:
  rounding and overflow are not modelled. What IEEE 754 makes infinite or NaN from finite
  operands (a division by zero, the square root or a fractional power of a negative number)
  is the single value \<open>NonFinite\<close>, which every arithmetic operation propagates and for
  which every comparison \<open>fabs(x) <= c\<close> is false.

  An array is a list read with \<open>!\<close>. Every array of the source has a fixed length and
  is read at constant indices within it: the tables have 5 entries, the rotation table 9,
  and \<open>elements\<close>, \<open>elem\<close> and \<open>xyz\<close> have 6.
\<close>

subsection \<open>Doubles\<close>

datatype double = Finite real | NonFinite

fun dadd :: "double \<Rightarrow> double \<Rightarrow> double" where
  "dadd (Finite x) (Finite y) = Finite (x + y)"
| "dadd _ _ = NonFinite"




text \<open>
  \<open>x / y\<close>. A finite \<open>x\<close> over \<open>y = 0\<close> is infinite or NaN. A non-finite divisor occurs in
  this program only as the NaN of a square root, so the quotient is NaN there.
\<close>

fun ddiv :: "double \<Rightarrow> double \<Rightarrow> double" where
  "ddiv (Finite x) (Finite y) = (if y = 0 then NonFinite else Finite (x / y))"
| "ddiv _ _ = NonFinite"



text \<open>
  \<open>fmod(x, y)\<close> for finite \<open>x\<close> and finite \<open>y \<noteq> 0\<close>: \<open>x - n * y\<close> with \<open>n\<close> the quotient
  \<open>x / y\<close> truncated toward zero; the result is exact in IEEE 754. Every call of the
  source passes \<open>y = 2 * M_PI\<close>.
\<close>

definition trunc :: "real \<Rightarrow> int" where
  "trunc x = (if 0 \<le> x then \<lfloor>x\<rfloor> else \<lceil>x\<rceil>)"

definition fmod :: "real \<Rightarrow> real \<Rightarrow> real" where
  "fmod x y = x - of_int (trunc (x / y)) * y"

subsection \<open>Constant tables\<close>

definition M_PI :: real where
  "M_PI = 3.14159265358979323846"

definition fqn :: "real list" where
  "fqn = [4.44519055,
          2.492952519,
          1.516148111,
          0.721718509,
          0.46669212]"

definition fqe :: "real list" where
  "fqe = [20.082 * M_PI / (180 * 365.25),
          6.217 * M_PI / (180 * 365.25),
          2.865 * M_PI / (180 * 365.25),
          2.078 * M_PI / (180 * 365.25),
          0.386 * M_PI / (180 * 365.25)]"

definition fqi :: "real list" where
  "fqi = [- 20.309 * M_PI / (180 * 365.25),
          - 6.288 * M_PI / (180 * 365.25),
          - 2.836 * M_PI / (180 * 365.25),
          - 1.843 * M_PI / (180 * 365.25),
          - 0.259 * M_PI / (180 * 365.25)]"

definition phn :: "real list" where
  "phn = [- 0.238051,
          3.098046,
          2.285402,
          0.856359,
          - 0.915592]"

definition phe :: "real list" where
  "phe = [0.611392,
          2.408974,
          2.067774,
          0.735131,
          0.426767]"

definition phi :: "real list" where
  "phi = [5.702313,
          0.395757,
          0.589326,
          1.746237,
          4.206896]"


definition GUST86toJ2000 :: "real list" where
  "GUST86toJ2000 =
     [0.9753205572598290957, 0.06194437810676107434, 0.2119261772583629030,
      - 0.2207428547845518695, 0.2529905336992995280, 0.9419492459363773150,
      0.004733143558215848563, - 0.9654836528287313313, 0.2604206471702025216]"

subsection \<open>Satellites\<close>

text \<open>
  Modelled from the spec: the declaration of \<open>Gust86Orbit::Satellite\<close> (Gust86.h) is not
  among the sources. The spec has a closed enumeration of 5 bodies that indexes all
  constant tables; the enumerators and their order are those of the \<open>switch\<close> statements
  of Gust86.cpp, and \<open>satellite_index\<close> is the cast \<open>(int) satellite\<close>.
\<close>

datatype Satellite = Miranda | Ariel | Umbriel | Titania | Oberon

fun satellite_index :: "Satellite \<Rightarrow> nat" where
  "satellite_index Miranda = 0"
| "satellite_index Ariel = 1"
| "satellite_index Umbriel = 2"
| "satellite_index Titania = 3"
| "satellite_index Oberon = 4"

subsection \<open>CalcGust86Elem: phase angles and perturbation series\<close>

text \<open>
  The loop \<open>for (int i = 0; i < 5; i++)\<close> fills the local arrays \<open>an\<close>, \<open>ae\<close>, \<open>ai\<close>.
\<close>

definition angles_an :: "real \<Rightarrow> real list" where
  "angles_an t = map (\<lambda>i. fmod (fqn ! i * t + phn ! i) (2 * M_PI)) [0..<5]"

definition angles_ae :: "real \<Rightarrow> real list" where
  "angles_ae t = map (\<lambda>i. fmod (fqe ! i * t + phe ! i) (2 * M_PI)) [0..<5]"

definition angles_ai :: "real \<Rightarrow> real list" where
  "angles_ai t = map (\<lambda>i. fmod (fqi ! i * t + phi ! i) (2 * M_PI)) [0..<5]"

text \<open>
  One definition for each assignment \<open>elements[k] = ...\<close> of each \<open>case\<close> of the switch,
  term by term as the source writes it.
\<close>

definition elements_Miranda_0 :: "real \<Rightarrow> real list \<Rightarrow> real list \<Rightarrow> real list \<Rightarrow> real" where
  "elements_Miranda_0 t an ae ai =
       4.44352267
       - cos ((an ! 0) - (an ! 1) * 3 + (an ! 2) * 2) * 0.00003492
       + cos ((an ! 0) * 2 - (an ! 1) * 6 + (an ! 2) * 4) * 0.00000847
       + cos ((an ! 0) * 3 - (an ! 1) * 9 + (an ! 2) * 6) * 0.00000131
       - cos ((an ! 0) - (an ! 1)) * 0.00005228
       - cos ((an ! 0) * 2 - (an ! 1) * 2) * 0.00013665"

definition elements_Miranda_1 :: "real \<Rightarrow> real list \<Rightarrow> real list \<Rightarrow> real list \<Rightarrow> real" where
  "elements_Miranda_1 t an ae ai =
       sin ((an ! 0) - (an ! 1) * 3 + (an ! 2) * 2) * 0.02547217
       - sin ((an ! 0) * 2 - (an ! 1) * 6 + (an ! 2) * 4) * 0.00308831
       - sin ((an ! 0) * 3 - (an ! 1) * 9 + (an ! 2) * 6) * 0.0003181
       - sin ((an ! 0) * 4 - (an ! 1) * 12 + (an ! 2) * 8) * 0.00003749
       - sin ((an ! 0) - (an ! 1)) * 0.00005785
       - sin ((an ! 0) * 2 - (an ! 1) * 2) * 0.00006232
       - sin ((an ! 0) * 3 - (an ! 1) * 3) * 0.00002795
       + t * 4.44519055 - 0.23805158"

definition elements_Miranda_2 :: "real \<Rightarrow> real list \<Rightarrow> real list \<Rightarrow> real list \<Rightarrow> real" where
  "elements_Miranda_2 t an ae ai =
       cos (ae ! 0) * 0.00131238
       + cos (ae ! 1) * 0.00007181
       + cos (ae ! 2) * 0.00006977
       + cos (ae ! 3) * 0.00000675
       + cos (ae ! 4) * 0.00000627
       + cos (an ! 0) * 0.0001941
       - cos (- (an ! 0) + (an ! 1) * 2) * 0.00012331
       + cos ((an ! 0) * (- 2) + (an ! 1) * 3) * 0.00003952"

definition elements_Miranda_3 :: "real \<Rightarrow> real list \<Rightarrow> real list \<Rightarrow> real list \<Rightarrow> real" where
  "elements_Miranda_3 t an ae ai =
       sin (ae ! 0) * 0.00131238
       + sin (ae ! 1) * 0.00007181
       + sin (ae ! 2) * 0.00006977
       + sin (ae ! 3) * 0.00000675
       + sin (ae ! 4) * 0.00000627
       + sin (an ! 0) * 0.0001941
       - sin (- (an ! 0) + (an ! 1) * 2) * 0.00012331
       + sin ((an ! 0) * (- 2) + (an ! 1) * 3) * 0.00003952"

definition elements_Miranda_4 :: "real \<Rightarrow> real list \<Rightarrow> real list \<Rightarrow> real list \<Rightarrow> real" where
  "elements_Miranda_4 t an ae ai =
       cos (ai ! 0) * 0.03787171
       + cos (ai ! 1) * 0.00002701
       + cos (ai ! 2) * 0.00003076
       + cos (ai ! 3) * 0.00001218
       + cos (ai ! 4) * 0.00000537"

definition elements_Miranda_5 :: "real \<Rightarrow> real list \<Rightarrow> real list \<Rightarrow> real list \<Rightarrow> real" where
  "elements_Miranda_5 t an ae ai =
       sin (ai ! 0) * 0.03787171
       + sin (ai ! 1) * 0.00002701
       + sin (ai ! 2) * 0.00003076
       + sin (ai ! 3) * 0.00001218
       + sin (ai ! 4) * 0.00000537"

definition elements_Ariel_0 :: "real \<Rightarrow> real list \<Rightarrow> real list \<Rightarrow> real list \<Rightarrow> real" where
  "elements_Ariel_0 t an ae ai =
       2.49254257
       + cos ((an ! 0) - (an ! 1) * 3 + (an ! 2) * 2) * 0.00000255
       - cos ( (an ! 1) - (an ! 2)) * 0.00004216
       - cos ( (an ! 1) * 2 - (an ! 2) * 2) * 0.00010256"

definition elements_Ariel_1 :: "real \<Rightarrow> real list \<Rightarrow> real list \<Rightarrow> real list \<Rightarrow> real" where
  "elements_Ariel_1 t an ae ai =
       - sin ((an ! 0) - (an ! 1) * 3 + (an ! 2) * 2) * 0.0018605
       + sin ((an ! 0) * 2 - (an ! 1) * 6 + (an ! 2) * 4) * 0.00021999
       + sin ((an ! 0) * 3 - (an ! 1) * 9 + (an ! 2) * 6) * 0.0000231
       + sin ((an ! 0) * 4 - (an ! 1) * 12 + (an ! 2) * 8) * 0.0000043
       - sin ( (an ! 1) - (an ! 2)) * 0.00009011
       - sin ( (an ! 1) * 2 - (an ! 2) * 2) * 0.00009107
       - sin ( (an ! 1) * 3 - (an ! 2) * 3) * 0.00004275
       - sin ( (an ! 1) * 2 - (an ! 3) * 2) * 0.00001649
       + t * 2.49295252 + 3.09804641"

definition elements_Ariel_2 :: "real \<Rightarrow> real list \<Rightarrow> real list \<Rightarrow> real list \<Rightarrow> real" where
  "elements_Ariel_2 t an ae ai =
       cos (ae ! 0) * (- 0.00000335)
       + cos (ae ! 1) * 0.00118763
       + cos (ae ! 2) * 0.00086159
       + cos (ae ! 3) * 0.0000715
       + cos (ae ! 4) * 0.00005559
       - cos (- (an ! 1) + (an ! 2) * 2) * 0.0000846
       + cos ((an ! 1) * (- 2) + (an ! 2) * 3) * 0.00009181
       + cos (- (an ! 1) + (an ! 3) * 2) * 0.00002003
       + cos (an ! 1) * 0.00008977"

definition elements_Ariel_3 :: "real \<Rightarrow> real list \<Rightarrow> real list \<Rightarrow> real list \<Rightarrow> real" where
  "elements_Ariel_3 t an ae ai =
       sin (ae ! 0) * (- 0.00000335)
       + sin (ae ! 1) * 0.00118763
       + sin (ae ! 2) * 0.00086159
       + sin (ae ! 3) * 0.0000715
       + sin (ae ! 4) * 0.00005559
       - sin (- (an ! 1) + (an ! 2) * 2) * 0.0000846
       + sin ((an ! 1) * (- 2) + (an ! 2) * 3) * 0.00009181
       + sin (- (an ! 1) + (an ! 3) * 2) * 0.00002003
       + sin (an ! 1) * 0.00008977"

definition elements_Ariel_4 :: "real \<Rightarrow> real list \<Rightarrow> real list \<Rightarrow> real list \<Rightarrow> real" where
  "elements_Ariel_4 t an ae ai =
       cos (ai ! 0) * (- 0.00012175)
       + cos (ai ! 1) * 0.00035825
       + cos (ai ! 2) * 0.00029008
       + cos (ai ! 3) * 0.00009778
       + cos (ai ! 4) * 0.00003397"

definition elements_Ariel_5 :: "real \<Rightarrow> real list \<Rightarrow> real list \<Rightarrow> real list \<Rightarrow> real" where
  "elements_Ariel_5 t an ae ai =
       sin (ai ! 0) * (- 0.00012175)
       + sin (ai ! 1) * 0.00035825
       + sin (ai ! 2) * 0.00029008
       + sin (ai ! 3) * 0.00009778
       + sin (ai ! 4) * 0.00003397"

definition elements_Umbriel_0 :: "real \<Rightarrow> real list \<Rightarrow> real list \<Rightarrow> real list \<Rightarrow> real" where
  "elements_Umbriel_0 t an ae ai =
       1.5159549
       + cos ((an ! 2) - (an ! 3) * 2 + (ae ! 2)) * 0.00000974
       - cos ((an ! 1) - (an ! 2)) * 0.000106
       + cos ((an ! 1) * 2 - (an ! 2) * 2) * 0.00005416
       - cos ((an ! 2) - (an ! 3)) * 0.00002359
       - cos ((an ! 2) * 2 - (an ! 3) * 2) * 0.0000707
       - cos ((an ! 2) * 3 - (an ! 3) * 3) * 0.00003628"

definition elements_Umbriel_1 :: "real \<Rightarrow> real list \<Rightarrow> real list \<Rightarrow> real list \<Rightarrow> real" where
  "elements_Umbriel_1 t an ae ai =
       sin ((an ! 0) - (an ! 1) * 3 + (an ! 2) * 2) * 0.00066057
       - sin ((an ! 0) * 2 - (an ! 1) * 6 + (an ! 2) * 4) * 0.00007651
       - sin ((an ! 0) * 3 - (an ! 1) * 9 + (an ! 2) * 6) * 0.00000896
       - sin ((an ! 0) * 4 - (an ! 1) * 12 + (an ! 2) * 8) * 0.00000253
       - sin ((an ! 2) - (an ! 3) * 4 + (an ! 4) * 3) * 0.00005291
       - sin ((an ! 2) - (an ! 3) * 2 + (ae ! 4)) * 0.00000734
       - sin ((an ! 2) - (an ! 3) * 2 + (ae ! 3)) * 0.00000183
       + sin ((an ! 2) - (an ! 3) * 2 + (ae ! 2)) * 0.00014791
       + sin ((an ! 2) - (an ! 3) * 2 + (ae ! 1)) * (- 0.00000777)
       + sin ((an ! 1) - (an ! 2)) * 0.00009776
       + sin ((an ! 1) * 2 - (an ! 2) * 2) * 0.00007313
       + sin ((an ! 1) * 3 - (an ! 2) * 3) * 0.00003471
       + sin ((an ! 1) * 4 - (an ! 2) * 4) * 0.00001889
       - sin ((an ! 2) - (an ! 3)) * 0.00006789
       - sin ((an ! 2) * 2 - (an ! 3) * 2) * 0.00008286
       + sin ((an ! 2) * 3 - (an ! 3) * 3) * (- 0.00003381)
       - sin ((an ! 2) * 4 - (an ! 3) * 4) * 0.00001579
       - sin ((an ! 2) - (an ! 4)) * 0.00001021
       - sin ((an ! 2) * 2 - (an ! 4) * 2) * 0.00001708
       + t * 1.51614811 + 2.28540169"

definition elements_Umbriel_2 :: "real \<Rightarrow> real list \<Rightarrow> real list \<Rightarrow> real list \<Rightarrow> real" where
  "elements_Umbriel_2 t an ae ai =
       cos (ae ! 0) * (- 0.00000021)
       - cos (ae ! 1) * 0.00022795
       + cos (ae ! 2) * 0.00390469
       + cos (ae ! 3) * 0.00030917
       + cos (ae ! 4) * 0.00022192
       + cos (an ! 1) * 0.00002934
       + cos (an ! 2) * 0.0000262
       + cos (- (an ! 1) + (an ! 2) * 2) * 0.00005119
       - cos ((an ! 1) * (- 2) + (an ! 2) * 3) * 0.00010386
       - cos ((an ! 1) * (- 3) + (an ! 2) * 4) * 0.00002716
       + cos (an ! 3) * (- 0.00001622)
       + cos (- (an ! 2) + (an ! 3) * 2) * 0.00054923
       + cos ((an ! 2) * (- 2) + (an ! 3) * 3) * 0.0000347
       + cos ((an ! 2) * (- 3) + (an ! 3) * 4) * 0.00001281
       + cos (- (an ! 2) + (an ! 4) * 2) * 0.00002181
       + cos (an ! 2) * 0.00004625"

definition elements_Umbriel_3 :: "real \<Rightarrow> real list \<Rightarrow> real list \<Rightarrow> real list \<Rightarrow> real" where
  "elements_Umbriel_3 t an ae ai =
       sin (ae ! 0) * (- 0.00000021)
       - sin (ae ! 1) * 0.00022795
       + sin (ae ! 2) * 0.00390469
       + sin (ae ! 3) * 0.00030917
       + sin (ae ! 4) * 0.00022192
       + sin (an ! 1) * 0.00002934
       + sin (an ! 2) * 0.0000262
       + sin (- (an ! 1) + (an ! 2) * 2) * 0.00005119
       - sin ((an ! 1) * (- 2) + (an ! 2) * 3) * 0.00010386
       - sin ((an ! 1) * (- 3) + (an ! 2) * 4) * 0.00002716
       + sin (an ! 3) * (- 0.00001622)
       + sin (- (an ! 2) + (an ! 3) * 2) * 0.00054923
       + sin ((an ! 2) * (- 2) + (an ! 3) * 3) * 0.0000347
       + sin ((an ! 2) * (- 3) + (an ! 3) * 4) * 0.00001281
       + sin (- (an ! 2) + (an ! 4) * 2) * 0.00002181
       + sin (an ! 2) * 0.00004625"

definition elements_Umbriel_4 :: "real \<Rightarrow> real list \<Rightarrow> real list \<Rightarrow> real list \<Rightarrow> real" where
  "elements_Umbriel_4 t an ae ai =
       cos (ai ! 0) * (- 0.00001086)
       - cos (ai ! 1) * 0.00008151
       + cos (ai ! 2) * 0.00111336
       + cos (ai ! 3) * 0.00035014
       + cos (ai ! 4) * 0.0001065"

definition elements_Umbriel_5 :: "real \<Rightarrow> real list \<Rightarrow> real list \<Rightarrow> real list \<Rightarrow> real" where
  "elements_Umbriel_5 t an ae ai =
       sin (ai ! 0) * (- 0.00001086)
       - sin (ai ! 1) * 0.00008151
       + sin (ai ! 2) * 0.00111336
       + sin (ai ! 3) * 0.00035014
       + sin (ai ! 4) * 0.0001065"

definition elements_Titania_0 :: "real \<Rightarrow> real list \<Rightarrow> real list \<Rightarrow> real list \<Rightarrow> real" where
  "elements_Titania_0 t an ae ai =
       0.72166316
       - cos ((an ! 2) - (an ! 3) * 2 + (ae ! 2)) * 0.00000264
       - cos ((an ! 3) * 2 - (an ! 4) * 3 + (ae ! 4)) * 0.00000216
       + cos ((an ! 3) * 2 - (an ! 4) * 3 + (ae ! 3)) * 0.00000645
       - cos ((an ! 3) * 2 - (an ! 4) * 3 + (ae ! 2)) * 0.00000111
       + cos ((an ! 1) - (an ! 3)) * (- 0.00006223)
       - cos ((an ! 2) - (an ! 3)) * 0.00005613
       - cos ((an ! 3) - (an ! 4)) * 0.00003994
       - cos ((an ! 3) * 2 - (an ! 4) * 2) * 0.00009185
       - cos ((an ! 3) * 3 - (an ! 4) * 3) * 0.00005831
       - cos ((an ! 3) * 4 - (an ! 4) * 4) * 0.0000386
       - cos ((an ! 3) * 5 - (an ! 4) * 5) * 0.00002618
       - cos ((an ! 3) * 6 - (an ! 4) * 6) * 0.00001806"

definition elements_Titania_1 :: "real \<Rightarrow> real list \<Rightarrow> real list \<Rightarrow> real list \<Rightarrow> real" where
  "elements_Titania_1 t an ae ai =
       sin ((an ! 2) - (an ! 3) * 4 + (an ! 4) * 3) * 0.00002061
       - sin ((an ! 2) - (an ! 3) * 2 + (ae ! 4)) * 0.00000207
       - sin ((an ! 2) - (an ! 3) * 2 + (ae ! 3)) * 0.00000288
       - sin ((an ! 2) - (an ! 3) * 2 + (ae ! 2)) * 0.00004079
       + sin ((an ! 2) - (an ! 3) * 2 + (ae ! 1)) * 0.00000211
       - sin ((an ! 3) * 2 - (an ! 4) * 3 + (ae ! 4)) * 0.00005183
       + sin ((an ! 3) * 2 - (an ! 4) * 3 + (ae ! 3)) * 0.00015987
       + sin ((an ! 3) * 2 - (an ! 4) * 3 + (ae ! 2)) * (- 0.00003505)
       - sin ((an ! 3) * 3 - (an ! 4) * 4 + (ae ! 4)) * 0.00000156
       + sin ((an ! 1) - (an ! 3)) * 0.00004054
       + sin ((an ! 2) - (an ! 3)) * 0.00004617
       - sin ((an ! 3) - (an ! 4)) * 0.00031776
       - sin ((an ! 3) * 2 - (an ! 4) * 2) * 0.00030559
       - sin ((an ! 3) * 3 - (an ! 4) * 3) * 0.00014836
       - sin ((an ! 3) * 4 - (an ! 4) * 4) * 0.00008292
       + sin ((an ! 3) * 5 - (an ! 4) * 5) * (- 0.00004998)
       - sin ((an ! 3) * 6 - (an ! 4) * 6) * 0.00003156
       - sin ((an ! 3) * 7 - (an ! 4) * 7) * 0.00002056
       - sin ((an ! 3) * 8 - (an ! 4) * 8) * 0.00001369
       + t * 0.72171851 + 0.85635879"

definition elements_Titania_2 :: "real \<Rightarrow> real list \<Rightarrow> real list \<Rightarrow> real list \<Rightarrow> real" where
  "elements_Titania_2 t an ae ai =
       cos (ae ! 0) * (- 0.00000002)
       - cos (ae ! 1) * 0.00000129
       - cos (ae ! 2) * 0.00032451
       + cos (ae ! 3) * 0.00093281
       + cos (ae ! 4) * 0.00112089
       + cos (an ! 1) * 0.00003386
       + cos (an ! 3) * 0.00001746
       + cos (- (an ! 1) + (an ! 3) * 2) * 0.00001658
       + cos (an ! 2) * 0.00002889
       - cos (- (an ! 2) + (an ! 3) * 2) * 0.00003586
       + cos (an ! 3) * (- 0.00001786)
       - cos (an ! 4) * 0.0000321
       - cos (- (an ! 3) + (an ! 4) * 2) * 0.00017783
       + cos ((an ! 3) * (- 2) + (an ! 4) * 3) * 0.00079343
       + cos ((an ! 3) * (- 3) + (an ! 4) * 4) * 0.00009948
       + cos ((an ! 3) * (- 4) + (an ! 4) * 5) * 0.00004483
       + cos ((an ! 3) * (- 5) + (an ! 4) * 6) * 0.00002513
       + cos ((an ! 3) * (- 6) + (an ! 4) * 7) * 0.00001543"

definition elements_Titania_3 :: "real \<Rightarrow> real list \<Rightarrow> real list \<Rightarrow> real list \<Rightarrow> real" where
  "elements_Titania_3 t an ae ai =
       sin (ae ! 0) * (- 0.00000002)
       - sin (ae ! 1) * 0.00000129
       - sin (ae ! 2) * 0.00032451
       + sin (ae ! 3) * 0.00093281
       + sin (ae ! 4) * 0.00112089
       + sin (an ! 1) * 0.00003386
       + sin (an ! 3) * 0.00001746
       + sin (- (an ! 1) + (an ! 3) * 2) * 0.00001658
       + sin (an ! 2) * 0.00002889
       - sin (- (an ! 2) + (an ! 3) * 2) * 0.00003586
       + sin (an ! 3) * (- 0.00001786)
       - sin (an ! 4) * 0.0000321
       - sin (- (an ! 3) + (an ! 4) * 2) * 0.00017783
       + sin ((an ! 3) * (- 2) + (an ! 4) * 3) * 0.00079343
       + sin ((an ! 3) * (- 3) + (an ! 4) * 4) * 0.00009948
       + sin ((an ! 3) * (- 4) + (an ! 4) * 5) * 0.00004483
       + sin ((an ! 3) * (- 5) + (an ! 4) * 6) * 0.00002513
       + sin ((an ! 3) * (- 6) + (an ! 4) * 7) * 0.00001543"

definition elements_Titania_4 :: "real \<Rightarrow> real list \<Rightarrow> real list \<Rightarrow> real list \<Rightarrow> real" where
  "elements_Titania_4 t an ae ai =
       cos (ai ! 0) * (- 0.00000143)
       - cos (ai ! 1) * 0.00000106
       - cos (ai ! 2) * 0.00014013
       + cos (ai ! 3) * 0.00068572
       + cos (ai ! 4) * 0.00037832"

definition elements_Titania_5 :: "real \<Rightarrow> real list \<Rightarrow> real list \<Rightarrow> real list \<Rightarrow> real" where
  "elements_Titania_5 t an ae ai =
       sin (ai ! 0) * (- 0.00000143)
       - sin (ai ! 1) * 0.00000106
       - sin (ai ! 2) * 0.00014013
       + sin (ai ! 3) * 0.00068572
       + sin (ai ! 4) * 0.00037832"

definition elements_Oberon_0 :: "real \<Rightarrow> real list \<Rightarrow> real list \<Rightarrow> real list \<Rightarrow> real" where
  "elements_Oberon_0 t an ae ai =
       0.46658054
       + cos ((an ! 3) * 2 - (an ! 4) * 3 + (ae ! 4)) * 0.00000208
       - cos ((an ! 3) * 2 - (an ! 4) * 3 + (ae ! 3)) * 0.00000622
       + cos ((an ! 3) * 2 - (an ! 4) * 3 + (ae ! 2)) * 0.00000107
       - cos ((an ! 1) - (an ! 4)) * 0.0000431
       + cos ((an ! 2) - (an ! 4)) * (- 0.00003894)
       - cos ((an ! 3) - (an ! 4)) * 0.00008011
       + cos ((an ! 3) * 2 - (an ! 4) * 2) * 0.00005906
       + cos ((an ! 3) * 3 - (an ! 4) * 3) * 0.00003749
       + cos ((an ! 3) * 4 - (an ! 4) * 4) * 0.00002482
       + cos ((an ! 3) * 5 - (an ! 4) * 5) * 0.00001684"

definition elements_Oberon_1 :: "real \<Rightarrow> real list \<Rightarrow> real list \<Rightarrow> real list \<Rightarrow> real" where
  "elements_Oberon_1 t an ae ai =
       - sin ((an ! 2) - (an ! 3) * 4 + (an ! 4) * 3) * 0.00000782
       + sin ((an ! 3) * 2 - (an ! 4) * 3 + (ae ! 4)) * 0.00005129
       - sin ((an ! 3) * 2 - (an ! 4) * 3 + (ae ! 3)) * 0.00015824
       + sin ((an ! 3) * 2 - (an ! 4) * 3 + (ae ! 2)) * 0.00003451
       + sin ((an ! 1) - (an ! 4)) * 0.00004751
       + sin ((an ! 2) - (an ! 4)) * 0.00003896
       + sin ((an ! 3) - (an ! 4)) * 0.00035973
       + sin ((an ! 3) * 2 - (an ! 4) * 2) * 0.00028278
       + sin ((an ! 3) * 3 - (an ! 4) * 3) * 0.0001386
       + sin ((an ! 3) * 4 - (an ! 4) * 4) * 0.00007803
       + sin ((an ! 3) * 5 - (an ! 4) * 5) * 0.00004729
       + sin ((an ! 3) * 6 - (an ! 4) * 6) * 0.00003
       + sin ((an ! 3) * 7 - (an ! 4) * 7) * 0.00001962
       + sin ((an ! 3) * 8 - (an ! 4) * 8) * 0.00001311
       + t * 0.46669212 - 0.9155918"

definition elements_Oberon_2 :: "real \<Rightarrow> real list \<Rightarrow> real list \<Rightarrow> real list \<Rightarrow> real" where
  "elements_Oberon_2 t an ae ai =
       cos (ae ! 1) * (- 0.00000035)
       + cos (ae ! 2) * 0.00007453
       - cos (ae ! 3) * 0.00075868
       + cos (ae ! 4) * 0.00139734
       + cos (an ! 1) * 0.000039
       + cos (- (an ! 1) + (an ! 4) * 2) * 0.00001766
       + cos (an ! 2) * 0.00003242
       + cos (an ! 3) * 0.00007975
       + cos (an ! 4) * 0.00007566
       + cos (- (an ! 3) + (an ! 4) * 2) * 0.00013404
       - cos ((an ! 3) * (- 2) + (an ! 4) * 3) * 0.00098726
       - cos ((an ! 3) * (- 3) + (an ! 4) * 4) * 0.00012609
       - cos ((an ! 3) * (- 4) + (an ! 4) * 5) * 0.00005742
       - cos ((an ! 3) * (- 5) + (an ! 4) * 6) * 0.00003241
       - cos ((an ! 3) * (- 6) + (an ! 4) * 7) * 0.00001999
       - cos ((an ! 3) * (- 7) + (an ! 4) * 8) * 0.00001294"

definition elements_Oberon_3 :: "real \<Rightarrow> real list \<Rightarrow> real list \<Rightarrow> real list \<Rightarrow> real" where
  "elements_Oberon_3 t an ae ai =
       sin (ae ! 1) * (- 0.00000035)
       + sin (ae ! 2) * 0.00007453
       - sin (ae ! 3) * 0.00075868
       + sin (ae ! 4) * 0.00139734
       + sin (an ! 1) * 0.000039
       + sin (- (an ! 1) + (an ! 4) * 2) * 0.00001766
       + sin (an ! 2) * 0.00003242
       + sin (an ! 3) * 0.00007975
       + sin (an ! 4) * 0.00007566
       + sin (- (an ! 3) + (an ! 4) * 2) * 0.00013404
       - sin ((an ! 3) * (- 2) + (an ! 4) * 3) * 0.00098726
       - sin ((an ! 3) * (- 3) + (an ! 4) * 4) * 0.00012609
       - sin ((an ! 3) * (- 4) + (an ! 4) * 5) * 0.00005742
       - sin ((an ! 3) * (- 5) + (an ! 4) * 6) * 0.00003241
       - sin ((an ! 3) * (- 6) + (an ! 4) * 7) * 0.00001999
       - sin ((an ! 3) * (- 7) + (an ! 4) * 8) * 0.00001294"

definition elements_Oberon_4 :: "real \<Rightarrow> real list \<Rightarrow> real list \<Rightarrow> real list \<Rightarrow> real" where
  "elements_Oberon_4 t an ae ai =
       cos (ai ! 0) * (- 0.00000044)
       - cos (ai ! 1) * 0.00000031
       + cos (ai ! 2) * 0.00003689
       - cos (ai ! 3) * 0.00059633
       + cos (ai ! 4) * 0.00045169"

definition elements_Oberon_5 :: "real \<Rightarrow> real list \<Rightarrow> real list \<Rightarrow> real list \<Rightarrow> real" where
  "elements_Oberon_5 t an ae ai =
       sin (ai ! 0) * (- 0.00000044)
       - sin (ai ! 1) * 0.00000031
       + sin (ai ! 2) * 0.00003689
       - sin (ai ! 3) * 0.00059633
       + sin (ai ! 4) * 0.00045169"

definition CalcGust86Elem :: "real \<Rightarrow> Satellite \<Rightarrow> real list" where
  "CalcGust86Elem t body =
     (let an = angles_an t;
          ae = angles_ae t;
          ai = angles_ai t
      in case body of
           Miranda \<Rightarrow>
             [elements_Miranda_0 t an ae ai, elements_Miranda_1 t an ae ai,
              elements_Miranda_2 t an ae ai, elements_Miranda_3 t an ae ai,
              elements_Miranda_4 t an ae ai, elements_Miranda_5 t an ae ai]
         | Ariel \<Rightarrow>
             [elements_Ariel_0 t an ae ai, elements_Ariel_1 t an ae ai,
              elements_Ariel_2 t an ae ai, elements_Ariel_3 t an ae ai,
              elements_Ariel_4 t an ae ai, elements_Ariel_5 t an ae ai]
         | Umbriel \<Rightarrow>
             [elements_Umbriel_0 t an ae ai, elements_Umbriel_1 t an ae ai,
              elements_Umbriel_2 t an ae ai, elements_Umbriel_3 t an ae ai,
              elements_Umbriel_4 t an ae ai, elements_Umbriel_5 t an ae ai]
         | Titania \<Rightarrow>
             [elements_Titania_0 t an ae ai, elements_Titania_1 t an ae ai,
              elements_Titania_2 t an ae ai, elements_Titania_3 t an ae ai,
              elements_Titania_4 t an ae ai, elements_Titania_5 t an ae ai]
         | Oberon \<Rightarrow>
             [elements_Oberon_0 t an ae ai, elements_Oberon_1 t an ae ai,
              elements_Oberon_2 t an ae ai, elements_Oberon_3 t an ae ai,
              elements_Oberon_4 t an ae ai, elements_Oberon_5 t an ae ai])"

subsection \<open>EllipticToRectangular: Kepler's equation and the rectangular state\<close>

text \<open>
  The correction \<open>dLe\<close> of one pass of the loop \<open>for (;;)\<close> at the current \<open>Le\<close>.
\<close>

definition newton_dLe :: "real \<Rightarrow> real list \<Rightarrow> real \<Rightarrow> double" where
  "newton_dLe L elem Le =
     (let cLe = cos Le;
          sLe = sin Le
      in ddiv (Finite (L - Le + elem ! 2 * sLe - elem ! 3 * cLe))
              (Finite (1 - elem ! 2 * cLe - elem ! 3 * sLe)))"

text \<open>
  The loop \<open>for (;;) { ...; Le += dLe; if (fabs(dLe) <= 1e-14) break; }\<close>. The source
  has no other exit. Once \<open>dLe\<close> is not finite, \<open>Le\<close> is not finite either, the test is
  false, and the next pass computes NaN from it again. \<open>None\<close> is the loop that
  never exits.
\<close>

partial_function (option) newton_loop :: "real \<Rightarrow> real list \<Rightarrow> double \<Rightarrow> real option" where
  "newton_loop L elem Le =
     (case Le of
        NonFinite \<Rightarrow> newton_loop L elem NonFinite
      | Finite le \<Rightarrow>
          (case newton_dLe L elem le of
             NonFinite \<Rightarrow> newton_loop L elem NonFinite
           | Finite dLe \<Rightarrow>
               if \<bar>dLe\<bar> \<le> 0.00000000000001 then Some (le + dLe)
               else newton_loop L elem (Finite (le + dLe))))"

text \<open>
  Lines 500 to 522 of \<open>EllipticToRectangular\<close>: the reduced longitude \<open>L\<close> (line 500),
  the seed, which is the first value of \<open>Le\<close> (line 512), and the loop; the value is
  \<open>Le\<close> after the loop.
\<close>

definition EllipticToRectangular_L :: "real \<Rightarrow> real list \<Rightarrow> real \<Rightarrow> real" where
  "EllipticToRectangular_L n elem dt = fmod (elem ! 1 + n * dt) (2 * M_PI)"

definition EllipticToRectangular_Le0 :: "real \<Rightarrow> real list \<Rightarrow> real \<Rightarrow> real" where
  "EllipticToRectangular_Le0 n elem dt =
     (let L = EllipticToRectangular_L n elem dt
      in L - elem ! 2 * sin L + elem ! 3 * cos L)"

definition EllipticToRectangular_Le :: "real \<Rightarrow> real list \<Rightarrow> real \<Rightarrow> real option" where
  "EllipticToRectangular_Le n elem dt =
     newton_loop (EllipticToRectangular_L n elem dt) elem
       (Finite (EllipticToRectangular_Le0 n elem dt))"



subsection \<open>Gust86Orbit\<close>









subsection \<open>The passes of the Newton loop\<close>

text \<open>
  \<open>newton_Le j L elem Le\<close> is the variable \<open>Le\<close> after \<open>j\<close> passes of the loop body
  started at \<open>Le\<close>, the exit test left aside; \<open>newton_exit j L elem Le\<close> says that the
  test \<open>fabs(dLe) <= 1e-14\<close> of pass number \<open>j\<close> (counted from 0) is true.
\<close>

primrec newton_Le :: "nat \<Rightarrow> real \<Rightarrow> real list \<Rightarrow> double \<Rightarrow> double" where
  "newton_Le 0 L elem Le = Le"
| "newton_Le (Suc j) L elem Le =
     (case newton_Le j L elem Le of
        NonFinite \<Rightarrow> NonFinite
      | Finite le \<Rightarrow> dadd (Finite le) (newton_dLe L elem le))"

definition newton_exit :: "nat \<Rightarrow> real \<Rightarrow> real list \<Rightarrow> double \<Rightarrow> bool" where
  "newton_exit j L elem Le =
     (case newton_Le j L elem Le of
        NonFinite \<Rightarrow> False
      | Finite le \<Rightarrow>
          (case newton_dLe L elem le of
             NonFinite \<Rightarrow> False
           | Finite dLe \<Rightarrow> \<bar>dLe\<bar> \<le> 0.00000000000001))"

primrec newton_no_exit_before :: "nat \<Rightarrow> real \<Rightarrow> real list \<Rightarrow> double \<Rightarrow> bool" where
  "newton_no_exit_before 0 L elem Le = True"
| "newton_no_exit_before (Suc j) L elem Le =
     (newton_no_exit_before j L elem Le \<and> \<not> newton_exit j L elem Le)"

subsection \<open>The Kepler solver as the specification words it\<close>

text \<open>
  Section 4.3 of the specification: seed \<open>F0 = L - h sin L + k cos L\<close>, correction
  \<open>dF = (L + n dt - F + h sin F - k cos F) / (1 - h cos F - k sin F)\<close>, \<open>F += dF\<close>, until
  \<open>|dF| \<le> 1e-14\<close>. These definitions follow the specification, not the source.
\<close>

definition spec_F0 :: "real \<Rightarrow> real \<Rightarrow> real \<Rightarrow> real" where
  "spec_F0 L h k = L - h * sin L + k * cos L"

definition spec_dF :: "real \<Rightarrow> real \<Rightarrow> real \<Rightarrow> real \<Rightarrow> real \<Rightarrow> real \<Rightarrow> double" where
  "spec_dF n L h k dt F =
     ddiv (Finite (L + n * dt - F + h * sin F - k * cos F))
          (Finite (1 - h * cos F - k * sin F))"

partial_function (option) spec_newton ::
  "real \<Rightarrow> real \<Rightarrow> real \<Rightarrow> real \<Rightarrow> real \<Rightarrow> double \<Rightarrow> real option" where
  "spec_newton n L h k dt F =
     (case F of
        NonFinite \<Rightarrow> spec_newton n L h k dt NonFinite
      | Finite f \<Rightarrow>
          (case spec_dF n L h k dt f of
             NonFinite \<Rightarrow> spec_newton n L h k dt NonFinite
           | Finite dF \<Rightarrow>
               if \<bar>dF\<bar> \<le> 0.00000000000001 then Some (f + dF)
               else spec_newton n L h k dt (Finite (f + dF))))"

definition spec_kepler :: "real \<Rightarrow> real \<Rightarrow> real \<Rightarrow> real \<Rightarrow> real \<Rightarrow> real option" where
  "spec_kepler n L h k dt = spec_newton n L h k dt (Finite (spec_F0 L h k))"

subsection \<open>The rectangular state as the specification words it\<close>








subsection \<open>The rotation table as a matrix\<close>

definition R_entry :: "nat \<Rightarrow> nat \<Rightarrow> real" where
  "R_entry i j = GUST86toJ2000 ! (3 * i + j)"

definition RtR :: "nat \<Rightarrow> nat \<Rightarrow> real" where
  "RtR i j = R_entry 0 i * R_entry 0 j + R_entry 1 i * R_entry 1 j + R_entry 2 i * R_entry 2 j"

definition RRt :: "nat \<Rightarrow> nat \<Rightarrow> real" where
  "RRt i j = R_entry i 0 * R_entry j 0 + R_entry i 1 * R_entry j 1 + R_entry i 2 * R_entry j 2"

definition identity3 :: "nat \<Rightarrow> nat \<Rightarrow> real" where
  "identity3 i j = (if i = j then 1 else 0)"

subsection \<open>The sine series of Miranda's mean longitude\<close>

text \<open>
  The terms of \<open>elements[1]\<close> of the case \<open>Miranda\<close> that depend on the phase angles:
  the assignment without its last two summands \<open>t * 4.44519055 - .23805158\<close>.
\<close>

definition Miranda_longitude_series :: "real list \<Rightarrow> real" where
  "Miranda_longitude_series an =
       sin ((an ! 0) - (an ! 1) * 3 + (an ! 2) * 2) * 0.02547217
       - sin ((an ! 0) * 2 - (an ! 1) * 6 + (an ! 2) * 4) * 0.00308831
       - sin ((an ! 0) * 3 - (an ! 1) * 9 + (an ! 2) * 6) * 0.0003181
       - sin ((an ! 0) * 4 - (an ! 1) * 12 + (an ! 2) * 8) * 0.00003749
       - sin ((an ! 0) - (an ! 1)) * 0.00005785
       - sin ((an ! 0) * 2 - (an ! 1) * 2) * 0.00006232
       - sin ((an ! 0) * 3 - (an ! 1) * 3) * 0.00002795"

subsection \<open>The Newton correction as a real number\<close>

text \<open>
  The quotient of \<open>newton_dLe\<close> where its denominator is not zero, with \<open>h = elem[2]\<close>
  and \<open>k = elem[3]\<close>.
\<close>

definition newton_quotient :: "real \<Rightarrow> real \<Rightarrow> real \<Rightarrow> real \<Rightarrow> real" where
  "newton_quotient L h k x = (L - x + h * sin x - k * cos x) / (1 - h * cos x - k * sin x)"

section \<open>Properties\<close>

subsection \<open>The Newton loop and its passes\<close>

lemma newton_loop_Some_Finite:
  assumes "newton_loop L elem s = Some F"
  shows "s \<noteq> NonFinite"
proof (rule newton_loop.raw_induct [where P = "\<lambda>L elem s F. s \<noteq> NonFinite", OF _ assms])
  fix loop L elem Le La
  assume "\<And>L elem s F. loop L elem s = Some F \<Longrightarrow> s \<noteq> NonFinite"
    and "(case Le of
           Finite le \<Rightarrow>
             (case newton_dLe L elem le of
                Finite dLe \<Rightarrow>
                  if \<bar>dLe\<bar> \<le> 0.00000000000001 then Some (le + dLe)
                  else loop L elem (Finite (le + dLe))
              | NonFinite \<Rightarrow> loop L elem NonFinite)
         | NonFinite \<Rightarrow> loop L elem NonFinite) = Some La"
  then show "Le \<noteq> NonFinite"
    by (auto split: double.splits if_splits)
qed

lemma newton_loop_NonFinite: "newton_loop L elem NonFinite = None"
  using newton_loop_Some_Finite [of L elem NonFinite] by (cases "newton_loop L elem NonFinite") auto

lemma newton_Le_NonFinite [simp]: "newton_Le j L elem NonFinite = NonFinite"
  by (induction j) auto

lemma newton_Le_shift: "newton_Le (Suc j) L elem s = newton_Le j L elem (newton_Le (Suc 0) L elem s)"
  by (induction j) auto

lemma newton_exit_shift: "newton_exit (Suc j) L elem s = newton_exit j L elem (newton_Le (Suc 0) L elem s)"
  unfolding newton_exit_def newton_Le_shift [of j] ..

lemma newton_no_exit_shift:
  "newton_no_exit_before (Suc j) L elem s =
     (\<not> newton_exit 0 L elem s \<and> newton_no_exit_before j L elem (newton_Le (Suc 0) L elem s))"
proof (induction j)
  case 0
  show ?case by simp
next
  case (Suc j)
  show ?case
    unfolding newton_no_exit_before.simps(2) [of "Suc j"] Suc.IH newton_exit_shift [of j]
    by auto
qed

lemma newton_loop_Some_D:
  assumes "newton_loop L elem s = Some F"
  shows "\<exists>j. newton_no_exit_before j L elem s \<and> newton_exit j L elem s \<and>
         newton_Le (Suc j) L elem s = Finite F"
proof (rule newton_loop.raw_induct [where P = "\<lambda>L elem s F.
         \<exists>j. newton_no_exit_before j L elem s \<and> newton_exit j L elem s \<and>
             newton_Le (Suc j) L elem s = Finite F", OF _ assms])
  fix loop L elem Le F
  assume 1: "\<And>L elem s F. loop L elem s = Some F \<Longrightarrow>
         \<exists>j. newton_no_exit_before j L elem s \<and> newton_exit j L elem s \<and>
             newton_Le (Suc j) L elem s = Finite F"
     "(case Le of
           Finite le \<Rightarrow>
             (case newton_dLe L elem le of
                Finite dLe \<Rightarrow>
                  if \<bar>dLe\<bar> \<le> 0.00000000000001 then Some (le + dLe)
                  else loop L elem (Finite (le + dLe))
              | NonFinite \<Rightarrow> loop L elem NonFinite)
         | NonFinite \<Rightarrow> loop L elem NonFinite) = Some F"
  have nf: "loop L elem NonFinite \<noteq> Some F" for L elem F
    using 1(1) [of L elem NonFinite F] by (auto simp: newton_exit_def)
  show "\<exists>j. newton_no_exit_before j L elem Le \<and> newton_exit j L elem Le \<and>
             newton_Le (Suc j) L elem Le = Finite F"
  proof (cases Le)
    case NonFinite
    with 1(2) nf show ?thesis by simp
  next
    case (Finite le)
    note Le = this
    show ?thesis
    proof (cases "newton_dLe L elem le")
      case NonFinite
      with 1(2) Le nf show ?thesis by simp
    next
      case (Finite d)
      note d = this
      show ?thesis
      proof (cases "\<bar>d\<bar> \<le> 0.00000000000001")
        case True
        with 1(2) Le d have "F = le + d" by simp
        with True Le d have "newton_no_exit_before 0 L elem Le \<and> newton_exit 0 L elem Le \<and>
            newton_Le (Suc 0) L elem Le = Finite F"
          by (simp add: newton_exit_def)
        then show ?thesis by blast
      next
        case False
        with 1(2) Le d have "loop L elem (Finite (le + d)) = Some F" by simp
        from 1(1) [OF this] obtain j where
          j: "newton_no_exit_before j L elem (Finite (le + d))"
             "newton_exit j L elem (Finite (le + d))"
             "newton_Le (Suc j) L elem (Finite (le + d)) = Finite F" by blast
        have step: "newton_Le (Suc 0) L elem Le = Finite (le + d)"
          using Le d by simp
        have "newton_no_exit_before (Suc j) L elem Le"
          unfolding newton_no_exit_shift step using j(1) False Le d
          by (simp add: newton_exit_def)
        moreover have "newton_exit (Suc j) L elem Le"
          unfolding newton_exit_shift step using j(2) .
        moreover have "newton_Le (Suc (Suc j)) L elem Le = Finite F"
          unfolding newton_Le_shift [of "Suc j"] step using j(3) .
        ultimately show ?thesis by blast
      qed
    qed
  qed
qed

lemma newton_loop_Some_I:
  "newton_no_exit_before j L elem s \<Longrightarrow> newton_exit j L elem s \<Longrightarrow>
     newton_Le (Suc j) L elem s = Finite F \<Longrightarrow> newton_loop L elem s = Some F"
proof (induction j arbitrary: s)
  case 0
  then show ?case
    by (subst newton_loop.simps) (auto simp: newton_exit_def split: double.splits)
next
  case (Suc j)
  from Suc.prems(1) have ne: "\<not> newton_exit 0 L elem s"
    and nb: "newton_no_exit_before j L elem (newton_Le (Suc 0) L elem s)"
    unfolding newton_no_exit_shift by auto
  from Suc.prems(2) have ex: "newton_exit j L elem (newton_Le (Suc 0) L elem s)"
    unfolding newton_exit_shift .
  from Suc.prems(3) have le: "newton_Le (Suc j) L elem (newton_Le (Suc 0) L elem s) = Finite F"
    unfolding newton_Le_shift [of "Suc j"] .
  have rec: "newton_loop L elem (newton_Le (Suc 0) L elem s) = Some F"
    by (rule Suc.IH [OF nb ex le])
  then have fin: "newton_Le (Suc 0) L elem s \<noteq> NonFinite"
    using newton_loop_Some_Finite by blast
  show ?case
    using ne rec fin
    by (subst newton_loop.simps) (auto simp: newton_exit_def split: double.splits)
qed


lemma M_PI_bounds: "3 < M_PI" "M_PI < 4"
  by (simp_all add: M_PI_def)

lemma cs_bound:
  fixes h k :: real
  assumes "h\<^sup>2 + k\<^sup>2 < 1"
  shows "\<bar>h * cos F + k * sin F\<bar> < 1"
proof -
  define c s where "c = cos F" and "s = sin F"
  have cs: "s * s + c * c = 1"
    unfolding c_def s_def using sin_cos_squared_add [of F] by (simp add: power2_eq_square)
  have "(h * c + k * s)\<^sup>2 + (h * s - k * c)\<^sup>2 = (h\<^sup>2 + k\<^sup>2) * (s * s + c * c)"
    by (simp add: power2_eq_square algebra_simps)
  then have "(h * cos F + k * sin F)\<^sup>2 + (h * sin F - k * cos F)\<^sup>2 = h\<^sup>2 + k\<^sup>2"
    unfolding cs unfolding c_def s_def by simp
  then have "(h * cos F + k * sin F)\<^sup>2 \<le> h\<^sup>2 + k\<^sup>2"
    using zero_le_power2 [of "h * sin F - k * cos F"] by linarith
  with assms have "(h * cos F + k * sin F)\<^sup>2 < 1" by linarith
  then show ?thesis by (simp add: abs_square_less_1)
qed

lemma newton_dLe_Finite:
  assumes "(elem ! 2)\<^sup>2 + (elem ! 3)\<^sup>2 < 1"
  shows "newton_dLe L elem F =
     Finite ((L - F + elem ! 2 * sin F - elem ! 3 * cos F) / (1 - elem ! 2 * cos F - elem ! 3 * sin F))"
  using cs_bound [OF assms, of F] by (simp add: newton_dLe_def Let_def)


lemma fmod_zero: "fmod 0 y = 0"
  by (simp add: fmod_def trunc_def)

lemma newton_loop_None_iff:
  "newton_loop L elem s = None \<longleftrightarrow> (\<forall>j. \<not> newton_exit j L elem s)"
proof
  assume none: "newton_loop L elem s = None"
  show "\<forall>j. \<not> newton_exit j L elem s"
  proof (rule ccontr)
    assume "\<not> (\<forall>j. \<not> newton_exit j L elem s)"
    then obtain j where j: "newton_exit j L elem s" by blast
    define m where "m = (LEAST i. newton_exit i L elem s)"
    have m: "newton_exit m L elem s" unfolding m_def using j by (rule LeastI)
    have before: "\<not> newton_exit i L elem s" if "i < m" for i
      using that not_less_Least unfolding m_def by blast
    have nb: "newton_no_exit_before i L elem s" if "i \<le> m" for i
      using that before by (induction i) (auto simp: Suc_le_eq)
    obtain F where "newton_Le (Suc m) L elem s = Finite F"
      using m by (auto simp: newton_exit_def split: double.splits)
    from newton_loop_Some_I [OF nb [OF order_refl] m this] none show False by simp
  qed
next
  assume all: "\<forall>j. \<not> newton_exit j L elem s"
  show "newton_loop L elem s = None"
  proof (cases "newton_loop L elem s")
    case None then show ?thesis .
  next
    case (Some F)
    from newton_loop_Some_D [OF this] all show ?thesis by blast
  qed
qed

lemma trunc_unique: "0 \<le> x \<Longrightarrow> of_int m \<le> x \<Longrightarrow> x < of_int m + 1 \<Longrightarrow> trunc x = m"
  unfolding trunc_def by (simp add: floor_unique)

lemma fmod_7: "fmod 7 (2 * M_PI) = 7 - 2 * M_PI"
proof -
  have "trunc (7 / (2 * M_PI)) = 1"
    by (rule trunc_unique) (simp_all add: M_PI_def)
  then show ?thesis by (simp add: fmod_def)
qed

lemma spec_newton_exit_now:
  "spec_dF n L h k dt f = Finite d \<Longrightarrow> \<bar>d\<bar> \<le> 0.00000000000001 \<Longrightarrow>
     spec_newton n L h k dt (Finite f) = Some (f + d)"
  by (subst spec_newton.simps) simp

lemma newton_loop_exit_now:
  "newton_dLe L elem le = Finite d \<Longrightarrow> \<bar>d\<bar> \<le> 0.00000000000001 \<Longrightarrow>
     newton_loop L elem (Finite le) = Some (le + d)"
  by (subst newton_loop.simps) simp

lemma EllipticToRectangular_Le_example:
  "EllipticToRectangular_Le 1 [1, 7, 0, 0, 0, 0] 0 = Some (7 - 2 * M_PI)"
proof -
  have L: "EllipticToRectangular_L 1 [1, 7, 0, 0, 0, 0] 0 = 7 - 2 * M_PI"
    by (simp add: EllipticToRectangular_L_def fmod_7)
  have Le0: "EllipticToRectangular_Le0 1 [1, 7, 0, 0, 0, 0] 0 = 7 - 2 * M_PI"
    by (simp add: EllipticToRectangular_Le0_def L)
  have d: "newton_dLe (7 - 2 * M_PI) [1, 7, 0, 0, 0, 0] (7 - 2 * M_PI) = Finite 0"
    by (simp add: newton_dLe_def)
  show ?thesis
    unfolding EllipticToRectangular_Le_def L Le0
    using newton_loop_exit_now [OF d] by simp
qed

lemma newton_loop_Some_iff:
  "newton_loop L elem s = Some F \<longleftrightarrow>
     (\<exists>j le d. newton_no_exit_before j L elem s \<and> newton_Le j L elem s = Finite le \<and>
        newton_dLe L elem le = Finite d \<and> \<bar>d\<bar> \<le> 0.00000000000001 \<and> F = le + d)"
proof
  assume "newton_loop L elem s = Some F"
  from newton_loop_Some_D [OF this] obtain j where
    j: "newton_no_exit_before j L elem s" "newton_exit j L elem s"
       "newton_Le (Suc j) L elem s = Finite F" by blast
  from j(2) obtain le d where "newton_Le j L elem s = Finite le"
      "newton_dLe L elem le = Finite d" "\<bar>d\<bar> \<le> 0.00000000000001"
    by (auto simp: newton_exit_def split: double.splits)
  with j show "\<exists>j le d. newton_no_exit_before j L elem s \<and> newton_Le j L elem s = Finite le \<and>
        newton_dLe L elem le = Finite d \<and> \<bar>d\<bar> \<le> 0.00000000000001 \<and> F = le + d"
    by auto
next
  assume "\<exists>j le d. newton_no_exit_before j L elem s \<and> newton_Le j L elem s = Finite le \<and>
        newton_dLe L elem le = Finite d \<and> \<bar>d\<bar> \<le> 0.00000000000001 \<and> F = le + d"
  then obtain j le d where j: "newton_no_exit_before j L elem s"
    "newton_Le j L elem s = Finite le" "newton_dLe L elem le = Finite d"
    "\<bar>d\<bar> \<le> 0.00000000000001" "F = le + d" by blast
  have "newton_exit j L elem s" using j by (simp add: newton_exit_def)
  moreover have "newton_Le (Suc j) L elem s = Finite F" using j by simp
  ultimately show "newton_loop L elem s = Some F"
    using newton_loop_Some_I [OF j(1)] by blast
qed


subsection \<open>Reduction of angles and the shape of the tables\<close>





lemma CalcGust86Elem_length: "length (CalcGust86Elem t body) = 6"
  by (cases body) (simp_all add: CalcGust86Elem_def Let_def)

subsection \<open>The products of the rotation table with its transpose\<close>

lemma entry_bound:
  fixes a b c d e f w :: real
  assumes "\<bar>a * b + c * d + e * f - w * 1000000000000000000000000000000000000000000\<bar> \<le> 1000000000000000000000000"
  shows "\<bar>a / 1000000000000000000000 * (b / 1000000000000000000000)
        + c / 1000000000000000000000 * (d / 1000000000000000000000)
        + e / 1000000000000000000000 * (f / 1000000000000000000000) - w\<bar> \<le> 1 / 10 ^ 18"
proof -
  define N where "N = a * b + c * d + e * f - w * 1000000000000000000000000000000000000000000"
  have eq: "a / 1000000000000000000000 * (b / 1000000000000000000000)
        + c / 1000000000000000000000 * (d / 1000000000000000000000)
        + e / 1000000000000000000000 * (f / 1000000000000000000000) - w
      = N / 1000000000000000000000000000000000000000000"
    unfolding N_def by (simp add: field_simps)
  have "\<bar>N / 1000000000000000000000000000000000000000000\<bar> = \<bar>N\<bar> / 1000000000000000000000000000000000000000000"
    by simp
  also have "\<dots> \<le> 1000000000000000000000000 / 1000000000000000000000000000000000000000000"
    using assms unfolding N_def by (intro divide_right_mono) simp_all
  also have "\<dots> = 1 / 10 ^ 18" by simp
  finally show ?thesis unfolding eq .
qed

lemma R_entries:
  "R_entry 0 0 = 975320557259829095700 / 1000000000000000000000"
  "R_entry 0 1 = 61944378106761074340 / 1000000000000000000000"
  "R_entry 0 2 = 211926177258362903000 / 1000000000000000000000"
  "R_entry 1 0 = - 220742854784551869500 / 1000000000000000000000"
  "R_entry 1 1 = 252990533699299528000 / 1000000000000000000000"
  "R_entry 1 2 = 941949245936377315000 / 1000000000000000000000"
  "R_entry 2 0 = 4733143558215848563 / 1000000000000000000000"
  "R_entry 2 1 = - 965483652828731331300 / 1000000000000000000000"
  "R_entry 2 2 = 260420647170202521600 / 1000000000000000000000"
  by (simp_all add: R_entry_def GUST86toJ2000_def)

lemma RtR_entries:
  "\<bar>RtR 0 0 - identity3 0 0\<bar> \<le> 1 / 10 ^ 18"
  "\<bar>RtR 0 1 - identity3 0 1\<bar> \<le> 1 / 10 ^ 18"
  "\<bar>RtR 0 2 - identity3 0 2\<bar> \<le> 1 / 10 ^ 18"
  "\<bar>RtR 1 0 - identity3 1 0\<bar> \<le> 1 / 10 ^ 18"
  "\<bar>RtR 1 1 - identity3 1 1\<bar> \<le> 1 / 10 ^ 18"
  "\<bar>RtR 1 2 - identity3 1 2\<bar> \<le> 1 / 10 ^ 18"
  "\<bar>RtR 2 0 - identity3 2 0\<bar> \<le> 1 / 10 ^ 18"
  "\<bar>RtR 2 1 - identity3 2 1\<bar> \<le> 1 / 10 ^ 18"
  "\<bar>RtR 2 2 - identity3 2 2\<bar> \<le> 1 / 10 ^ 18"
  unfolding RtR_def R_entries by (rule entry_bound, simp add: identity3_def)+

lemma RRt_entries:
  "\<bar>RRt 0 0 - identity3 0 0\<bar> \<le> 1 / 10 ^ 18"
  "\<bar>RRt 0 1 - identity3 0 1\<bar> \<le> 1 / 10 ^ 18"
  "\<bar>RRt 0 2 - identity3 0 2\<bar> \<le> 1 / 10 ^ 18"
  "\<bar>RRt 1 0 - identity3 1 0\<bar> \<le> 1 / 10 ^ 18"
  "\<bar>RRt 1 1 - identity3 1 1\<bar> \<le> 1 / 10 ^ 18"
  "\<bar>RRt 1 2 - identity3 1 2\<bar> \<le> 1 / 10 ^ 18"
  "\<bar>RRt 2 0 - identity3 2 0\<bar> \<le> 1 / 10 ^ 18"
  "\<bar>RRt 2 1 - identity3 2 1\<bar> \<le> 1 / 10 ^ 18"
  "\<bar>RRt 2 2 - identity3 2 2\<bar> \<le> 1 / 10 ^ 18"
  unfolding RRt_def R_entries by (rule entry_bound, simp add: identity3_def)+

subsection \<open>Bounds of the eccentricity and inclination elements\<close>

lemma bnd_cos: "\<bar>cos x * c\<bar> \<le> \<bar>c :: real\<bar>"
proof -
  have "\<bar>cos x * c\<bar> = \<bar>cos x\<bar> * \<bar>c\<bar>" by (simp add: abs_mult)
  also have "\<dots> \<le> 1 * \<bar>c\<bar>" by (intro mult_right_mono) simp_all
  finally show ?thesis by simp
qed

lemma bnd_sin: "\<bar>sin x * c\<bar> \<le> \<bar>c :: real\<bar>"
proof -
  have "\<bar>sin x * c\<bar> = \<bar>sin x\<bar> * \<bar>c\<bar>" by (simp add: abs_mult)
  also have "\<dots> \<le> 1 * \<bar>c\<bar>" by (intro mult_right_mono) simp_all
  finally show ?thesis by simp
qed

lemma bnd_add: "\<bar>a\<bar> \<le> A \<Longrightarrow> \<bar>b\<bar> \<le> B \<Longrightarrow> \<bar>a + b\<bar> \<le> A + (B :: real)"
  by linarith

lemma bnd_sub: "\<bar>a\<bar> \<le> A \<Longrightarrow> \<bar>b\<bar> \<le> B \<Longrightarrow> \<bar>a - b\<bar> \<le> A + (B :: real)"
  by linarith

lemmas bnd = bnd_add bnd_sub bnd_cos bnd_sin

lemma Miranda_2_bound: "\<bar>elements_Miranda_2 t an ae ai\<bar> \<le> 1 / 100"
  unfolding elements_Miranda_2_def
  apply (rule order_trans)
   apply (rule bnd)+
  apply simp
  done

lemma Miranda_3_bound: "\<bar>elements_Miranda_3 t an ae ai\<bar> \<le> 1 / 100"
  unfolding elements_Miranda_3_def
  apply (rule order_trans)
   apply (rule bnd)+
  apply simp
  done

lemma Miranda_4_bound: "\<bar>elements_Miranda_4 t an ae ai\<bar> \<le> 1 / 20"
  unfolding elements_Miranda_4_def
  apply (rule order_trans)
   apply (rule bnd)+
  apply simp
  done

lemma Miranda_5_bound: "\<bar>elements_Miranda_5 t an ae ai\<bar> \<le> 1 / 20"
  unfolding elements_Miranda_5_def
  apply (rule order_trans)
   apply (rule bnd)+
  apply simp
  done

lemma Ariel_2_bound: "\<bar>elements_Ariel_2 t an ae ai\<bar> \<le> 1 / 100"
  unfolding elements_Ariel_2_def
  apply (rule order_trans)
   apply (rule bnd)+
  apply simp
  done

lemma Ariel_3_bound: "\<bar>elements_Ariel_3 t an ae ai\<bar> \<le> 1 / 100"
  unfolding elements_Ariel_3_def
  apply (rule order_trans)
   apply (rule bnd)+
  apply simp
  done

lemma Ariel_4_bound: "\<bar>elements_Ariel_4 t an ae ai\<bar> \<le> 1 / 20"
  unfolding elements_Ariel_4_def
  apply (rule order_trans)
   apply (rule bnd)+
  apply simp
  done

lemma Ariel_5_bound: "\<bar>elements_Ariel_5 t an ae ai\<bar> \<le> 1 / 20"
  unfolding elements_Ariel_5_def
  apply (rule order_trans)
   apply (rule bnd)+
  apply simp
  done

lemma Umbriel_2_bound: "\<bar>elements_Umbriel_2 t an ae ai\<bar> \<le> 1 / 100"
  unfolding elements_Umbriel_2_def
  apply (rule order_trans)
   apply (rule bnd)+
  apply simp
  done

lemma Umbriel_3_bound: "\<bar>elements_Umbriel_3 t an ae ai\<bar> \<le> 1 / 100"
  unfolding elements_Umbriel_3_def
  apply (rule order_trans)
   apply (rule bnd)+
  apply simp
  done

lemma Umbriel_4_bound: "\<bar>elements_Umbriel_4 t an ae ai\<bar> \<le> 1 / 20"
  unfolding elements_Umbriel_4_def
  apply (rule order_trans)
   apply (rule bnd)+
  apply simp
  done

lemma Umbriel_5_bound: "\<bar>elements_Umbriel_5 t an ae ai\<bar> \<le> 1 / 20"
  unfolding elements_Umbriel_5_def
  apply (rule order_trans)
   apply (rule bnd)+
  apply simp
  done

lemma Titania_2_bound: "\<bar>elements_Titania_2 t an ae ai\<bar> \<le> 1 / 100"
  unfolding elements_Titania_2_def
  apply (rule order_trans)
   apply (rule bnd)+
  apply simp
  done

lemma Titania_3_bound: "\<bar>elements_Titania_3 t an ae ai\<bar> \<le> 1 / 100"
  unfolding elements_Titania_3_def
  apply (rule order_trans)
   apply (rule bnd)+
  apply simp
  done

lemma Titania_4_bound: "\<bar>elements_Titania_4 t an ae ai\<bar> \<le> 1 / 20"
  unfolding elements_Titania_4_def
  apply (rule order_trans)
   apply (rule bnd)+
  apply simp
  done

lemma Titania_5_bound: "\<bar>elements_Titania_5 t an ae ai\<bar> \<le> 1 / 20"
  unfolding elements_Titania_5_def
  apply (rule order_trans)
   apply (rule bnd)+
  apply simp
  done

lemma Oberon_2_bound: "\<bar>elements_Oberon_2 t an ae ai\<bar> \<le> 1 / 100"
  unfolding elements_Oberon_2_def
  apply (rule order_trans)
   apply (rule bnd)+
  apply simp
  done

lemma Oberon_3_bound: "\<bar>elements_Oberon_3 t an ae ai\<bar> \<le> 1 / 100"
  unfolding elements_Oberon_3_def
  apply (rule order_trans)
   apply (rule bnd)+
  apply simp
  done

lemma Oberon_4_bound: "\<bar>elements_Oberon_4 t an ae ai\<bar> \<le> 1 / 20"
  unfolding elements_Oberon_4_def
  apply (rule order_trans)
   apply (rule bnd)+
  apply simp
  done

lemma Oberon_5_bound: "\<bar>elements_Oberon_5 t an ae ai\<bar> \<le> 1 / 20"
  unfolding elements_Oberon_5_def
  apply (rule order_trans)
   apply (rule bnd)+
  apply simp
  done

lemmas elements_bounds =
  Miranda_2_bound Miranda_3_bound Miranda_4_bound Miranda_5_bound
  Ariel_2_bound Ariel_3_bound Ariel_4_bound Ariel_5_bound
  Umbriel_2_bound Umbriel_3_bound Umbriel_4_bound Umbriel_5_bound
  Titania_2_bound Titania_3_bound Titania_4_bound Titania_5_bound
  Oberon_2_bound Oberon_3_bound Oberon_4_bound Oberon_5_bound

lemma CalcGust86Elem_nth:
  "CalcGust86Elem t Miranda ! 2 = elements_Miranda_2 t (angles_an t) (angles_ae t) (angles_ai t)"
  "CalcGust86Elem t Miranda ! 3 = elements_Miranda_3 t (angles_an t) (angles_ae t) (angles_ai t)"
  "CalcGust86Elem t Miranda ! 4 = elements_Miranda_4 t (angles_an t) (angles_ae t) (angles_ai t)"
  "CalcGust86Elem t Miranda ! 5 = elements_Miranda_5 t (angles_an t) (angles_ae t) (angles_ai t)"
  "CalcGust86Elem t Ariel ! 2 = elements_Ariel_2 t (angles_an t) (angles_ae t) (angles_ai t)"
  "CalcGust86Elem t Ariel ! 3 = elements_Ariel_3 t (angles_an t) (angles_ae t) (angles_ai t)"
  "CalcGust86Elem t Ariel ! 4 = elements_Ariel_4 t (angles_an t) (angles_ae t) (angles_ai t)"
  "CalcGust86Elem t Ariel ! 5 = elements_Ariel_5 t (angles_an t) (angles_ae t) (angles_ai t)"
  "CalcGust86Elem t Umbriel ! 2 = elements_Umbriel_2 t (angles_an t) (angles_ae t) (angles_ai t)"
  "CalcGust86Elem t Umbriel ! 3 = elements_Umbriel_3 t (angles_an t) (angles_ae t) (angles_ai t)"
  "CalcGust86Elem t Umbriel ! 4 = elements_Umbriel_4 t (angles_an t) (angles_ae t) (angles_ai t)"
  "CalcGust86Elem t Umbriel ! 5 = elements_Umbriel_5 t (angles_an t) (angles_ae t) (angles_ai t)"
  "CalcGust86Elem t Titania ! 2 = elements_Titania_2 t (angles_an t) (angles_ae t) (angles_ai t)"
  "CalcGust86Elem t Titania ! 3 = elements_Titania_3 t (angles_an t) (angles_ae t) (angles_ai t)"
  "CalcGust86Elem t Titania ! 4 = elements_Titania_4 t (angles_an t) (angles_ae t) (angles_ai t)"
  "CalcGust86Elem t Titania ! 5 = elements_Titania_5 t (angles_an t) (angles_ae t) (angles_ai t)"
  "CalcGust86Elem t Oberon ! 2 = elements_Oberon_2 t (angles_an t) (angles_ae t) (angles_ai t)"
  "CalcGust86Elem t Oberon ! 3 = elements_Oberon_3 t (angles_an t) (angles_ae t) (angles_ai t)"
  "CalcGust86Elem t Oberon ! 4 = elements_Oberon_4 t (angles_an t) (angles_ae t) (angles_ai t)"
  "CalcGust86Elem t Oberon ! 5 = elements_Oberon_5 t (angles_an t) (angles_ae t) (angles_ai t)"
  by (simp_all add: CalcGust86Elem_def Let_def)

lemma CalcGust86Elem_bounds:
  "\<bar>CalcGust86Elem t body ! 2\<bar> \<le> 1 / 100"
  "\<bar>CalcGust86Elem t body ! 3\<bar> \<le> 1 / 100"
  "\<bar>CalcGust86Elem t body ! 4\<bar> \<le> 1 / 20"
  "\<bar>CalcGust86Elem t body ! 5\<bar> \<le> 1 / 20"
  by (cases body; simp only: CalcGust86Elem_nth elements_bounds)+

lemma sq_bound:
  fixes x b :: real
  assumes "\<bar>x\<bar> \<le> b"
  shows "x * x \<le> b * b"
proof -
  have "x * x = \<bar>x\<bar> * \<bar>x\<bar>" by simp
  also have "\<dots> \<le> b * b" using assms by (intro mult_mono) simp_all
  finally show ?thesis .
qed

subsection \<open>The quantities of the rectangular state\<close>




subsection \<open>Convergence of the Newton loop for small eccentricity\<close>

lemma one_minus_cos_bound: "0 \<le> 1 - cos d" "1 - cos d \<le> d\<^sup>2 / 2" for d :: real
proof -
  show "0 \<le> 1 - cos d" by simp
  have "1 - cos d = 2 * (sin (d / 2))\<^sup>2"
    using cos_double_sin [of "d / 2"] by simp
  also have "(sin (d / 2))\<^sup>2 \<le> (d / 2)\<^sup>2"
    using abs_sin_x_le_abs_x [of "d / 2"] by (simp only: abs_le_square_iff)
  finally show "1 - cos d \<le> d\<^sup>2 / 2"
    by (simp add: power2_eq_square)
qed

lemma x_minus_sin_bound: "\<bar>d - sin d\<bar> \<le> d\<^sup>2 / 2" for d :: real
proof -
  have c: "sin_coeff (Suc 0) = 1" by (simp add: sin_coeff_def)
  have s: "(\<Sum>m<2. sin_coeff m * d ^ m) = d"
    by (simp add: numeral_2_eq_2 c)
  have "\<bar>sin d - (\<Sum>m<2. sin_coeff m * d ^ m)\<bar> \<le> inverse (fact 2) * \<bar>d\<bar> ^ 2"
    by (rule Maclaurin_sin_bound)
  then have "\<bar>sin d - d\<bar> \<le> inverse (fact 2) * \<bar>d\<bar> ^ 2"
    unfolding s .
  then show ?thesis by (simp add: abs_minus_commute)
qed

lemma small_combination:
  fixes h k :: real
  assumes "\<bar>h\<bar> \<le> 1 / 100" and "\<bar>k\<bar> \<le> 1 / 100" and "\<bar>u\<bar> \<le> 1" and "\<bar>v\<bar> \<le> 1"
  shows "\<bar>h * u + k * v\<bar> \<le> 1 / 50" and "\<bar>h * u - k * v\<bar> \<le> 1 / 50"
proof -
  have "\<bar>h * u\<bar> \<le> 1 / 100 * 1"
    unfolding abs_mult using assms by (intro mult_mono) simp_all
  moreover have "\<bar>k * v\<bar> \<le> 1 / 100 * 1"
    unfolding abs_mult using assms by (intro mult_mono) simp_all
  ultimately show "\<bar>h * u + k * v\<bar> \<le> 1 / 50" "\<bar>h * u - k * v\<bar> \<le> 1 / 50"
    by linarith+
qed

lemma quotient_bound:
  fixes h k :: real
  assumes "\<bar>h\<bar> \<le> 1 / 100" and "\<bar>k\<bar> \<le> 1 / 100"
    and "\<bar>L - x + h * sin x - k * cos x\<bar> \<le> G"
  shows "\<bar>newton_quotient L h k x\<bar> \<le> G * 50 / 49"
proof -
  have B: "\<bar>h * cos x + k * sin x\<bar> \<le> 1 / 50"
    by (rule small_combination [OF assms(1,2)]) simp_all
  then have den: "49 / 50 \<le> 1 - h * cos x - k * sin x" by linarith
  have G: "0 \<le> G" using assms(3) by linarith
  have "\<bar>newton_quotient L h k x\<bar> = \<bar>L - x + h * sin x - k * cos x\<bar> / (1 - h * cos x - k * sin x)"
    unfolding newton_quotient_def using den by simp
  also have "\<dots> \<le> G / (49 / 50)"
    using den assms(3) G by (intro frac_le) simp_all
  finally show ?thesis by simp
qed

lemma newton_step_residual:
  fixes h k :: real
  assumes "\<bar>h\<bar> \<le> 1 / 100" and "\<bar>k\<bar> \<le> 1 / 100"
    and d_def: "d = newton_quotient L h k x"
  shows "\<bar>L - (x + d) + h * sin (x + d) - k * cos (x + d)\<bar> \<le> d\<^sup>2 / 50"
proof -
  define A where "A = h * sin x - k * cos x"
  define B where "B = h * cos x + k * sin x"
  have Ab: "\<bar>A\<bar> \<le> 1 / 50" unfolding A_def
    by (rule small_combination [OF assms(1,2)]) simp_all
  have Bb: "\<bar>B\<bar> \<le> 1 / 50" unfolding B_def
    by (rule small_combination [OF assms(1,2)]) simp_all
  have den: "1 - B \<noteq> 0" using Bb by linarith
  have "d = (L - x + A) / (1 - B)"
    unfolding d_def newton_quotient_def A_def B_def by (simp add: algebra_simps)
  then have dd: "d * (1 - B) = L - x + A" using den by simp
  have "h * sin (x + d) - k * cos (x + d) = A * cos d + B * sin d"
    unfolding A_def B_def sin_add cos_add by (simp add: algebra_simps)
  then have "L - (x + d) + h * sin (x + d) - k * cos (x + d)
      = (L - x + A) - d - A + A * cos d + B * sin d" by simp
  also have "\<dots> = - (A * (1 - cos d)) - B * (d - sin d)"
    unfolding dd [symmetric] by (simp add: algebra_simps)
  finally have eq: "L - (x + d) + h * sin (x + d) - k * cos (x + d)
      = - (A * (1 - cos d)) - B * (d - sin d)" .
  have "\<bar>A * (1 - cos d)\<bar> \<le> 1 / 50 * (d\<^sup>2 / 2)"
    unfolding abs_mult using Ab one_minus_cos_bound [of d] by (intro mult_mono) simp_all
  moreover have "\<bar>B * (d - sin d)\<bar> \<le> 1 / 50 * (d\<^sup>2 / 2)"
    unfolding abs_mult using Bb x_minus_sin_bound [of d] by (intro mult_mono) simp_all
  ultimately show ?thesis unfolding eq by linarith
qed

lemma newton_step_bound:
  fixes h k :: real
  assumes "\<bar>h\<bar> \<le> 1 / 100" and "\<bar>k\<bar> \<le> 1 / 100"
  shows "\<bar>newton_quotient L h k (x + newton_quotient L h k x)\<bar> \<le> (newton_quotient L h k x)\<^sup>2 / 49"
  using quotient_bound [OF assms newton_step_residual [OF assms refl, of L x]] by simp

lemma newton_seed_bound:
  fixes h k :: real
  assumes "\<bar>h\<bar> \<le> 1 / 100" and "\<bar>k\<bar> \<le> 1 / 100"
  shows "\<bar>newton_quotient L h k (L - h * sin L + k * cos L)\<bar> \<le> 2 / 49"
proof -
  define x where "x = L - h * sin L + k * cos L"
  have 1: "\<bar>h * sin L - k * cos L\<bar> \<le> 1 / 50"
    by (rule small_combination [OF assms]) simp_all
  have 2: "\<bar>h * sin x - k * cos x\<bar> \<le> 1 / 50"
    by (rule small_combination [OF assms]) simp_all
  have "\<bar>L - x + h * sin x - k * cos x\<bar> \<le> 1 / 25"
    using 1 2 unfolding x_def by linarith
  from quotient_bound [OF assms this] show ?thesis unfolding x_def by simp
qed


lemma abs_sq_le:
  fixes d b :: real
  assumes "\<bar>d\<bar> \<le> b"
  shows "d\<^sup>2 \<le> b\<^sup>2"
  using sq_bound [OF assms] by (simp add: power2_eq_square)

lemma newton_first_exit:
  assumes "newton_exit j L elem s"
  shows "\<exists>m\<le>j. newton_no_exit_before m L elem s \<and> newton_exit m L elem s"
proof -
  define m where "m = (LEAST i. newton_exit i L elem s)"
  have m: "newton_exit m L elem s" unfolding m_def using assms by (rule LeastI)
  have le: "m \<le> j" unfolding m_def using assms by (rule Least_le)
  have before: "\<not> newton_exit i L elem s" if "i < m" for i
    using that not_less_Least unfolding m_def by blast
  have "newton_no_exit_before i L elem s" if "i \<le> m" for i
    using that before by (induction i) (auto simp: Suc_le_eq)
  then show ?thesis using m le by blast
qed

lemma newton_exit_within_four:
  assumes h: "\<bar>elem ! 2\<bar> \<le> 1 / 100" and k: "\<bar>elem ! 3\<bar> \<le> 1 / 100"
  shows "newton_exit (Suc (Suc (Suc 0))) L elem (Finite (L - elem ! 2 * sin L + elem ! 3 * cos L))"
proof -
  define q where "q = newton_quotient L (elem ! 2) (elem ! 3)"
  define x0 where "x0 = L - elem ! 2 * sin L + elem ! 3 * cos L"
  define x1 where "x1 = x0 + q x0"
  define x2 where "x2 = x1 + q x1"
  define x3 where "x3 = x2 + q x2"
  have "elem ! 2 * elem ! 2 \<le> 1 / 100 * (1 / 100)" "elem ! 3 * elem ! 3 \<le> 1 / 100 * (1 / 100)"
    by (intro sq_bound h k)+
  then have e: "(elem ! 2)\<^sup>2 + (elem ! 3)\<^sup>2 < 1"
    by (simp add: power2_eq_square)
  have dLe: "newton_dLe L elem x = Finite (q x)" for x
    unfolding q_def newton_quotient_def by (rule newton_dLe_Finite [OF e])
  have step: "\<bar>q (x + q x)\<bar> \<le> (q x)\<^sup>2 / 49" for x
    unfolding q_def by (rule newton_step_bound [OF h k])
  have b0: "\<bar>q x0\<bar> \<le> 2 / 49"
    unfolding q_def x0_def by (rule newton_seed_bound [OF h k])
  have "\<bar>q x1\<bar> \<le> (q x0)\<^sup>2 / 49" unfolding x1_def by (rule step)
  also have "\<dots> \<le> (2 / 49)\<^sup>2 / 49"
    by (intro divide_right_mono abs_sq_le b0) simp
  finally have b1: "\<bar>q x1\<bar> \<le> 4 / 117649" by (simp add: power2_eq_square)
  have "\<bar>q x2\<bar> \<le> (q x1)\<^sup>2 / 49" unfolding x2_def by (rule step)
  also have "\<dots> \<le> (4 / 117649)\<^sup>2 / 49"
    by (intro divide_right_mono abs_sq_le b1) simp
  finally have b2: "\<bar>q x2\<bar> \<le> 1 / 40000000000" by (simp add: power2_eq_square)
  have "\<bar>q x3\<bar> \<le> (q x2)\<^sup>2 / 49" unfolding x3_def by (rule step)
  also have "\<dots> \<le> (1 / 40000000000)\<^sup>2 / 49"
    by (intro divide_right_mono abs_sq_le b2) simp
  finally have b3: "\<bar>q x3\<bar> \<le> 0.00000000000001" by (simp add: power2_eq_square)
  have Le3: "newton_Le (Suc (Suc (Suc 0))) L elem (Finite x0) = Finite x3"
    by (simp add: dLe x1_def x2_def x3_def)
  show ?thesis
    unfolding x0_def [symmetric] newton_exit_def Le3 using b3 by (simp add: dLe)
qed





subsection \<open>C1: the Newton loop has no iteration cap\<close>

text \<open>
  Claim C1 says that the loop makes at most a fixed number of passes and then returns an
  error. The loop of the source is \<open>for (;;)\<close> with the single exit
  \<open>if (fabs(dLe) <= 1e-14) break\<close>. At \<open>L = 0\<close>, \<open>h = 1\<close>, \<open>k = 0\<close> the first pass
  divides zero by zero, \<open>Le\<close> is NaN from then on and the call never returns, neither a
  value nor an error.
\<close>

theorem kepler_solver_never_returns: "EllipticToRectangular_Le 1 [1, 0, 1, 0, 0, 0] 0 = None"
proof -
  have L: "EllipticToRectangular_L 1 [1, 0, 1, 0, 0, 0] 0 = 0"
    by (simp add: EllipticToRectangular_L_def fmod_zero)
  have Le0: "EllipticToRectangular_Le0 1 [1, 0, 1, 0, 0, 0] 0 = 0"
    by (simp add: EllipticToRectangular_Le0_def L)
  have d: "newton_dLe 0 [1, 0, 1, 0, 0, 0] 0 = NonFinite"
    by (simp add: newton_dLe_def)
  show ?thesis
    unfolding EllipticToRectangular_Le_def L Le0
    by (subst newton_loop.simps) (simp add: d newton_loop_NonFinite)
qed

text \<open>
  Claim C1 as amended. The solver has no iteration cap and no error result: the call
  returns a value exactly when the exit test is true at some pass, whatever the number of
  that pass, and otherwise it does not return. On the elements that \<open>CalcGust86Elem\<close>
  computes, for any satellite and time, the first pass whose test is true is among the
  first four.
\<close>

theorem kepler_solver_returns_iff_some_pass_exits:
  "((\<exists>F. EllipticToRectangular_Le n elem dt = Some F) \<longleftrightarrow>
    (\<exists>j. newton_exit j (EllipticToRectangular_L n elem dt) elem
           (Finite (EllipticToRectangular_Le0 n elem dt)))) \<and>
   (\<exists>j\<le>3. newton_no_exit_before j (EllipticToRectangular_L n (CalcGust86Elem t body) dt)
             (CalcGust86Elem t body) (Finite (EllipticToRectangular_Le0 n (CalcGust86Elem t body) dt)) \<and>
          newton_exit j (EllipticToRectangular_L n (CalcGust86Elem t body) dt)
             (CalcGust86Elem t body) (Finite (EllipticToRectangular_Le0 n (CalcGust86Elem t body) dt)))"
proof -
  have 1: "(\<exists>F. EllipticToRectangular_Le n elem dt = Some F) \<longleftrightarrow>
    (\<exists>j. newton_exit j (EllipticToRectangular_L n elem dt) elem
           (Finite (EllipticToRectangular_Le0 n elem dt)))"
    unfolding EllipticToRectangular_Le_def
    using newton_loop_None_iff
      [of "EllipticToRectangular_L n elem dt" elem "Finite (EllipticToRectangular_Le0 n elem dt)"]
    by auto
  have "newton_exit (Suc (Suc (Suc 0))) (EllipticToRectangular_L n (CalcGust86Elem t body) dt)
      (CalcGust86Elem t body) (Finite (EllipticToRectangular_Le0 n (CalcGust86Elem t body) dt))"
    unfolding EllipticToRectangular_Le0_def Let_def
    by (rule newton_exit_within_four [OF CalcGust86Elem_bounds(1,2)])
  from newton_first_exit [OF this] have 2:
    "\<exists>j\<le>3. newton_no_exit_before j (EllipticToRectangular_L n (CalcGust86Elem t body) dt)
             (CalcGust86Elem t body) (Finite (EllipticToRectangular_Le0 n (CalcGust86Elem t body) dt)) \<and>
          newton_exit j (EllipticToRectangular_L n (CalcGust86Elem t body) dt)
             (CalcGust86Elem t body) (Finite (EllipticToRectangular_Le0 n (CalcGust86Elem t body) dt))"
    by (simp add: numeral_3_eq_3)
  show ?thesis using 1 2 by blast
qed

subsection \<open>C2: construction of an orbit\<close>



subsection \<open>C3: the seed, the correction and the exit of the solver\<close>

text \<open>
  Claim C3 seeds the iteration from the element \<open>L\<close> and corrects toward \<open>L + n dt\<close>.
  The source first reduces the propagated longitude, \<open>L = fmod(elem[1] + n*dt, 2 M_PI)\<close>,
  and uses that one value in the seed and in every correction. At \<open>L = 7\<close>, \<open>h = k = 0\<close>,
  \<open>dt = 0\<close> the source returns \<open>7 - 2 M_PI\<close> and the procedure of the claim returns \<open>7\<close>.
\<close>

theorem kepler_solver_reduces_longitude:
  "EllipticToRectangular_Le 1 [1, 7, 0, 0, 0, 0] 0 \<noteq> spec_kepler 1 7 0 0 0"
proof -
  have sd: "spec_dF 1 7 0 0 0 7 = Finite 0"
    by (simp add: spec_dF_def)
  have spec: "spec_kepler 1 7 0 0 0 = Some 7"
    unfolding spec_kepler_def spec_F0_def
    using spec_newton_exit_now [OF sd] by simp
  show ?thesis
    unfolding EllipticToRectangular_Le_example spec using M_PI_bounds by simp
qed

text \<open>
  Claim C3 as amended. For elements \<open>{n, L, h, k, p, q}\<close> and time offset \<open>dt\<close> the solver
  forms \<open>Lr = fmod(L + n dt, 2 M_PI)\<close>, seeds \<open>F0 = Lr - h sin Lr + k cos Lr\<close>, and at each
  pass applies \<open>dF = (Lr - F + h sin F - k cos F) / (1 - h cos F - k sin F)\<close>, \<open>F += dF\<close>.
  It returns \<open>F\<close> exactly when \<open>F\<close> is the value after the first pass whose correction
  satisfies \<open>|dF| \<le> 1e-14\<close>: no earlier pass met the test, and the last applied
  correction \<open>d\<close> does.
\<close>

theorem kepler_solver_procedure:
  "(let elem = [n, L, h, k, p, q];
        Lr = fmod (L + n * dt) (2 * M_PI);
        F0 = Lr - h * sin Lr + k * cos Lr
    in EllipticToRectangular_L n elem dt = Lr \<and>
       EllipticToRectangular_Le0 n elem dt = F0 \<and>
       newton_dLe Lr elem x =
         ddiv (Finite (Lr - x + h * sin x - k * cos x)) (Finite (1 - h * cos x - k * sin x)) \<and>
       (EllipticToRectangular_Le n elem dt = Some F \<longleftrightarrow>
          (\<exists>j le d. newton_no_exit_before j Lr elem (Finite F0) \<and>
             newton_Le j Lr elem (Finite F0) = Finite le \<and>
             newton_dLe Lr elem le = Finite d \<and> \<bar>d\<bar> \<le> 0.00000000000001 \<and> F = le + d)))"
proof -
  have L: "EllipticToRectangular_L n [n, L, h, k, p, q] dt = fmod (L + n * dt) (2 * M_PI)"
    by (simp add: EllipticToRectangular_L_def)
  have F0: "EllipticToRectangular_Le0 n [n, L, h, k, p, q] dt =
      fmod (L + n * dt) (2 * M_PI) - h * sin (fmod (L + n * dt) (2 * M_PI))
        + k * cos (fmod (L + n * dt) (2 * M_PI))"
    by (simp add: EllipticToRectangular_Le0_def L Let_def)
  have d: "newton_dLe Lr [n, L, h, k, p, q] x =
      ddiv (Finite (Lr - x + h * sin x - k * cos x)) (Finite (1 - h * cos x - k * sin x))" for Lr
    by (simp add: newton_dLe_def Let_def)
  show ?thesis
    unfolding Let_def EllipticToRectangular_Le_def L F0 newton_loop_Some_iff
    using d by simp
qed

subsection \<open>C4: the Newton denominator\<close>



subsection \<open>C5: the rectangular state converter\<close>



subsection \<open>C6: the angle propagator\<close>



subsection \<open>C7: the elements stay inside the unit disc\<close>


subsection \<open>C8: the rotation table is orthonormal\<close>

text \<open>
  Claim C8. With \<open>R\<close> the table \<open>GUST86toJ2000\<close> read as a 3 by 3 matrix, every entry
  of \<open>R\<^sup>t R\<close> and of \<open>R R\<^sup>t\<close> is within \<open>1e-18\<close> of the entry of the identity
  matrix, for the decimal values of the literals. The tolerance is below the rounding
  unit of a double.
\<close>

theorem GUST86toJ2000_orthonormal:
  "\<forall>i<3. \<forall>j<3. \<bar>RtR i j - identity3 i j\<bar> \<le> 1 / 10 ^ 18 \<and>
                  \<bar>RRt i j - identity3 i j\<bar> \<le> 1 / 10 ^ 18"
proof (intro allI impI)
  fix i j :: nat
  assume "i < 3" and "j < 3"
  then have "i = 0 \<or> i = 1 \<or> i = 2" and "j = 0 \<or> j = 1 \<or> j = 2"
    by auto
  then show "\<bar>RtR i j - identity3 i j\<bar> \<le> 1 / 10 ^ 18 \<and> \<bar>RRt i j - identity3 i j\<bar> \<le> 1 / 10 ^ 18"
    using RtR_entries RRt_entries by auto
qed

theorem GUST86toJ2000_orthonormal_witness:
  "(0::nat) < 3 \<and> (1::nat) < 3 \<and> \<bar>RtR 0 1 - identity3 0 1\<bar> \<le> 1 / 10 ^ 18 \<and>
   \<bar>RRt 0 1 - identity3 0 1\<bar> \<le> 1 / 10 ^ 18 \<and> identity3 0 1 = 0 \<and> identity3 1 1 = 1"
proof -
  have a: "(0::nat) < 3" and b: "(1::nat) < 3" by simp_all
  show ?thesis
    using a b GUST86toJ2000_orthonormal [rule_format, OF a b] by (simp add: identity3_def)
qed

subsection \<open>C9: the bias of Miranda's mean longitude\<close>

text \<open>
  Claim C9. Miranda is satellite index 0. At \<open>t = 0\<close> its mean-longitude element
  \<open>elements[1]\<close> less the sine series is the literal \<open>-0.23805158\<close>; at every \<open>t\<close> the
  element is the sine series plus the secular term \<open>t * 4.44519055 - 0.23805158\<close>.
\<close>

theorem Miranda_longitude_bias:
  "satellite_index Miranda = 0 \<and>
   CalcGust86Elem 0 Miranda ! 1 - Miranda_longitude_series (angles_an 0) = - 0.23805158 \<and>
   CalcGust86Elem t Miranda ! 1 =
     Miranda_longitude_series (angles_an t) + t * 4.44519055 - 0.23805158"
  by (simp add: CalcGust86Elem_def Let_def elements_Miranda_1_def Miranda_longitude_series_def)

subsection \<open>C10: the state is a function of the satellite and the time\<close>



end
